theory Spec2Isabelle
  imports Main "HOL-Library.Sublist"
begin

section \<open>JavaScript values used by the code\<close>

text \<open>
  Strings are lists of code units; the embedding covers the code units U+0000 to U+00FF,
  one \<^typ>\<open>char\<close> each. A value that may be \<^verbatim>\<open>null\<close> or
  \<^verbatim>\<open>undefined\<close> is an \<^typ>\<open>'a option\<close>.
\<close>

text \<open>Truthiness of a \<^verbatim>\<open>string | null | undefined\<close>: the empty string is falsy.\<close>

definition truthy :: "string option \<Rightarrow> bool" where
  "truthy v = (case v of None \<Rightarrow> False | Some s \<Rightarrow> s \<noteq> [])"

text \<open>\<^verbatim>\<open>a || b\<close> on such values.\<close>

definition js_or :: "string option \<Rightarrow> string option \<Rightarrow> string option" where
  "js_or a b = (if truthy a then a else b)"

text \<open>\<^verbatim>\<open>s.startsWith(t)\<close> and \<^verbatim>\<open>s.includes(t)\<close>.\<close>

fun startsWith :: "string \<Rightarrow> string \<Rightarrow> bool" where
  "startsWith s [] = True"
| "startsWith [] (c # t) = False"
| "startsWith (d # s) (c # t) = (d = c \<and> startsWith s t)"

fun includes_str :: "string \<Rightarrow> string \<Rightarrow> bool" where
  "includes_str [] t = (t = [])"
| "includes_str (c # s) t = (startsWith (c # s) t \<or> includes_str s t)"

text \<open>\<^verbatim>\<open>s.charAt(i)\<close>: the empty string when \<open>i\<close> is out of range.\<close>

definition charAt :: "string \<Rightarrow> nat \<Rightarrow> string" where
  "charAt s i = (if i < length s then [s ! i] else [])"

text \<open>
  White space and line terminators of ECMAScript below U+0100: TAB, LF, VT, FF, CR, SP and
  NBSP. They are what \<^verbatim>\<open>trim()\<close> strips and what \<^verbatim>\<open>\s\<close> matches.
\<close>

definition isWhiteSpace :: "char \<Rightarrow> bool" where
  "isWhiteSpace c = (of_char c \<in> {9, 10, 11, 12, 13, 32, 160 :: nat})"

definition trim :: "string \<Rightarrow> string" where
  "trim s = rev (dropWhile isWhiteSpace (rev (dropWhile isWhiteSpace s)))"

text \<open>
  \<^verbatim>\<open>toLowerCase()\<close> below U+0100: A-Z and the Latin-1 capitals U+00C0 to U+00DE (but
  the multiplication sign U+00D7) move up by 32.
\<close>

definition lowerChar :: "char \<Rightarrow> char" where
  "lowerChar c =
     (let n = (of_char c :: nat) in
      if (65 \<le> n \<and> n \<le> 90) \<or> (192 \<le> n \<and> n \<le> 222 \<and> n \<noteq> 215)
      then char_of (n + 32) else c)"

definition toLowerCase :: "string \<Rightarrow> string" where
  "toLowerCase s = map lowerChar s"

section \<open>The Session store (useAuthStore.ts)\<close>

text \<open>
  Modelled from the spec: the type \<^verbatim>\<open>Profile\<close> of \<^verbatim>\<open>@/types/knowledge\<close>, whose
  declaration is not among the sources; its fields are those of the spec's data model, which
  are the ones the code reads and writes.
\<close>

record Profile =
  id' :: string
  email :: string
  displayName :: "string option"
  avatarUrl :: "string option"
  provider :: "string option"

record AuthState =
  user :: "Profile option"
  isAuthenticated :: bool
  isAuthLoading :: bool
  authError :: "string option"

definition initialAuthState :: AuthState where
  "initialAuthState =
     \<lparr>user = None, isAuthenticated = False, isAuthLoading = False, authError = None\<rparr>"

text \<open>Each action is a \<^verbatim>\<open>set\<close> of zustand: the fields named are replaced, the others kept.\<close>

definition setUser :: "Profile option \<Rightarrow> AuthState \<Rightarrow> AuthState" where
  "setUser u s = s\<lparr>user := u, isAuthenticated := (u \<noteq> None)\<rparr>"

definition setAuthLoading :: "bool \<Rightarrow> AuthState \<Rightarrow> AuthState" where
  "setAuthLoading loading s = s\<lparr>isAuthLoading := loading\<rparr>"

definition setAuthError :: "string option \<Rightarrow> AuthState \<Rightarrow> AuthState" where
  "setAuthError e s = s\<lparr>authError := e\<rparr>"

definition login :: "Profile \<Rightarrow> AuthState \<Rightarrow> AuthState" where
  "login u s = s\<lparr>user := Some u, isAuthenticated := True, authError := None\<rparr>"

definition logout :: "AuthState \<Rightarrow> AuthState" where
  "logout s = s\<lparr>user := None, isAuthenticated := False, authError := None\<rparr>"

datatype AuthAction =
  SetUser "Profile option"
| SetAuthLoading bool
| SetAuthError "string option"
| Login Profile
| Logout

fun act :: "AuthAction \<Rightarrow> AuthState \<Rightarrow> AuthState" where
  "act (SetUser u) s = setUser u s"
| "act (SetAuthLoading b) s = setAuthLoading b s"
| "act (SetAuthError e) s = setAuthError e s"
| "act (Login u) s = login u s"
| "act Logout s = logout s"

fun runActions :: "AuthAction list \<Rightarrow> AuthState \<Rightarrow> AuthState" where
  "runActions [] s = s"
| "runActions (a # as) s = runActions as (act a s)"

section \<open>The authentication modal (AuthModal)\<close>

subsection \<open>Form validation\<close>

text \<open>
  The regular expressions of the modal are anchored sequences of single characters and of
  character classes under \<^verbatim>\<open>+\<close>. \<open>matches\<close> decides whether the whole string matches
  such a sequence, trying every split as the backtracking matcher of JavaScript does.
\<close>

datatype Atom = OneOrMore "char \<Rightarrow> bool" | Chr char

fun matches :: "Atom list \<Rightarrow> string \<Rightarrow> bool" where
  "matches [] s = (s = [])"
| "matches (Chr c # r) [] = False"
| "matches (Chr c # r) (d # t) = (d = c \<and> matches r t)"
| "matches (OneOrMore P # r) [] = False"
| "matches (OneOrMore P # r) (d # t) = (P d \<and> (matches r t \<or> matches (OneOrMore P # r) t))"

text \<open>The class \<^verbatim>\<open>[^\s@]\<close>.\<close>

definition notSpaceOrAt :: "char \<Rightarrow> bool" where
  "notSpaceOrAt c = (\<not> isWhiteSpace c \<and> c \<noteq> CHR ''@'')"

text \<open>\<^verbatim>\<open>/^[^\s@]+@[^\s@]+\.[^\s@]+$/.test(email)\<close>\<close>

definition validateEmail :: "string \<Rightarrow> bool" where
  "validateEmail e =
     matches [OneOrMore notSpaceOrAt, Chr CHR ''@'', OneOrMore notSpaceOrAt, Chr CHR ''.'',
              OneOrMore notSpaceOrAt] e"

definition isLetter :: "char \<Rightarrow> bool" where
  "isLetter c = (c \<in> set ''abcdefghijklmnopqrstuvwxyzABCDEFGHIJKLMNOPQRSTUVWXYZ'')"

definition isDigit :: "char \<Rightarrow> bool" where
  "isDigit c = (c \<in> set ''0123456789'')"

text \<open>
  \<^verbatim>\<open>password.length >= 6 && /[a-zA-Z]/.test(password) && /[0-9]/.test(password)\<close>
\<close>

definition validatePassword :: "string \<Rightarrow> bool" where
  "validatePassword p = (length p \<ge> 6 \<and> list_ex isLetter p \<and> list_ex isDigit p)"

subsection \<open>The collaborators, as parameters\<close>

text \<open>
  A thrown value is an \<^verbatim>\<open>Error\<close> with its message, or any other value with what
  \<^verbatim>\<open>String(err)\<close> makes of it. An awaited call returns \<open>Inl\<close> of what it threw or
  \<open>Inr\<close> of its result.
\<close>

datatype Thrown = ErrorObj string | NonError string

record UserInfo =
  ui_email :: string
  ui_name :: "string option"
  ui_picture :: "string option"

record UserInfoResponse =
  ok :: bool
  json :: "Thrown + UserInfo"

record RegisterRequest =
  reg_email :: string
  reg_password :: string
  reg_displayName :: "string option"
  reg_avatarUrl :: "string option"

text \<open>
  The module \<^verbatim>\<open>@/lib/api\<close>, Google's user-info endpoint and \<^verbatim>\<open>Math.random\<close> are not
  among the sources: what each call answers is a parameter. \<open>random36 i\<close> is the string
  \<^verbatim>\<open>Math.random().toString(36)\<close> of the \<open>i\<close>-th draw.
\<close>

record Env =
  fetchUserInfo :: "string \<Rightarrow> Thrown + UserInfoResponse"
  profiles_getByEmail :: "string \<Rightarrow> bool \<Rightarrow> Thrown + Profile option"
  profiles_update :: "string \<Rightarrow> Profile \<Rightarrow> Thrown + Profile"
  auth_register :: "RegisterRequest \<Rightarrow> Thrown + Profile"
  auth_login :: "string \<Rightarrow> string \<Rightarrow> Thrown + Profile"
  random36 :: "nat \<Rightarrow> string"

text \<open>The requests that leave the browser, in the order they are made.\<close>

datatype NetCall =
  FetchUserInfo string
| GetByEmail string bool
| UpdateProfile string Profile
| Register RegisterRequest
| AuthLogin string string

fun isUpdateCall :: "NetCall \<Rightarrow> bool" where
  "isUpdateCall (UpdateProfile i f) = True"
| "isUpdateCall c = False"

fun isCreateCall :: "NetCall \<Rightarrow> bool" where
  "isCreateCall (Register r) = True"
| "isCreateCall c = False"

subsection \<open>The state the handlers act on\<close>

datatype Mode = LoginMode | SignupMode

text \<open>
  The modal's \<^verbatim>\<open>useState\<close> variables (\<open>st_x\<close> for the variable \<open>x\<close>) and the number of
  times the \<^verbatim>\<open>onClose\<close> property was called.
\<close>

record ModalState =
  st_mode :: Mode
  st_email :: string
  st_password :: string
  st_displayName :: string
  st_isLoading :: bool
  st_isGoogleLoading :: bool
  st_error :: "string option"
  closed :: nat

record World =
  modal :: ModalState
  auth :: AuthState
  net :: "NetCall list"

definition call :: "NetCall \<Rightarrow> World \<Rightarrow> World" where
  "call c w = w\<lparr>net := net w @ [c]\<rparr>"

text \<open>The requests made between the world \<open>w\<close> and the later world \<open>w'\<close>.\<close>

definition newCalls :: "World \<Rightarrow> World \<Rightarrow> NetCall list" where
  "newCalls w w' = drop (length (net w)) (net w')"

definition setError :: "string option \<Rightarrow> World \<Rightarrow> World" where
  "setError e w = w\<lparr>modal := (modal w)\<lparr>st_error := e\<rparr>\<rparr>"

definition setIsLoading :: "bool \<Rightarrow> World \<Rightarrow> World" where
  "setIsLoading b w = w\<lparr>modal := (modal w)\<lparr>st_isLoading := b\<rparr>\<rparr>"

definition setIsGoogleLoading :: "bool \<Rightarrow> World \<Rightarrow> World" where
  "setIsGoogleLoading b w = w\<lparr>modal := (modal w)\<lparr>st_isGoogleLoading := b\<rparr>\<rparr>"

definition onClose :: "World \<Rightarrow> World" where
  "onClose w = w\<lparr>modal := (modal w)\<lparr>closed := closed (modal w) + 1\<rparr>\<rparr>"

definition resetForm :: "World \<Rightarrow> World" where
  "resetForm w =
     w\<lparr>modal := (modal w)\<lparr>st_email := [], st_password := [], st_displayName := [],
                            st_error := None\<rparr>\<rparr>"

text \<open>The store's \<open>login\<close>, as the modal calls it.\<close>

definition storeLogin :: "Profile \<Rightarrow> World \<Rightarrow> World" where
  "storeLogin p w = w\<lparr>auth := login p (auth w)\<rparr>"

text \<open>What every successful branch ends with: \<^verbatim>\<open>login(p); onClose(); resetForm()\<close>.\<close>

definition establish :: "Profile \<Rightarrow> World \<Rightarrow> World" where
  "establish p w = resetForm (onClose (storeLogin p w))"

subsection \<open>Google login: reconciling the identity with the backend's profiles\<close>

text \<open>\<^verbatim>\<open>err instanceof Error ? err.message : String(err)\<close>\<close>

fun errorMsgOf :: "Thrown \<Rightarrow> string" where
  "errorMsgOf (ErrorObj m) = m"
| "errorMsgOf (NonError s) = s"

text \<open>
  Step 1, the inner \<^verbatim>\<open>try\<close> around \<^verbatim>\<open>api.profiles.getByEmail(userInfo.email, true)\<close>: the
  pair \<open>(existingProfile, shouldRegister)\<close>, or the error thrown in place of any failure that
  is not a 404.
\<close>

definition lookupProfile :: "Env \<Rightarrow> UserInfo \<Rightarrow> Thrown + (Profile option \<times> bool)" where
  "lookupProfile env userInfo =
     (case profiles_getByEmail env (ui_email userInfo) True of
        Inr found \<Rightarrow> Inr (found, False)
      | Inl err \<Rightarrow>
          (let errorMsg = errorMsgOf err in
           if includes_str errorMsg ''404'' \<or> includes_str errorMsg ''Not Found''
           then Inr (None, True)
           else Inl (ErrorObj ''Could not verify account status. Please try again.'')))"

text \<open>The object sent with the avatar update.\<close>

definition avatarUpdate :: "UserInfo \<Rightarrow> Profile \<Rightarrow> Profile" where
  "avatarUpdate userInfo existingProfile =
     \<lparr>id' = id' existingProfile, email = email existingProfile,
      displayName = displayName existingProfile, avatarUrl = ui_picture userInfo,
      provider = Some ''google''\<rparr>"

text \<open>
  The avatar sync of the existing-profile branch: the local \<open>existingProfile\<close> after it, and
  the world. What the update throws is caught and dropped.
\<close>

definition syncAvatar :: "Env \<Rightarrow> UserInfo \<Rightarrow> Profile \<Rightarrow> World \<Rightarrow> Profile \<times> World" where
  "syncAvatar env userInfo existingProfile w =
     (if truthy (ui_picture userInfo) \<and> avatarUrl existingProfile \<noteq> ui_picture userInfo
      then
        (let w' = call (UpdateProfile (id' existingProfile) (avatarUpdate userInfo existingProfile)) w in
         case profiles_update env (id' existingProfile) (avatarUpdate userInfo existingProfile) of
           Inr _ \<Rightarrow>
             (existingProfile\<lparr>avatarUrl := ui_picture userInfo, provider := Some ''google''\<rparr>, w')
         | Inl _ \<Rightarrow> (existingProfile, w'))
      else (existingProfile, w))"

text \<open>
  \<^verbatim>\<open>Array(16).fill(0).map(() => Math.random().toString(36).charAt(2)).join('') + 'Aa1'\<close>
\<close>

definition randomPassword :: "(nat \<Rightarrow> string) \<Rightarrow> string" where
  "randomPassword rnd = concat (map (\<lambda>i. charAt (rnd i) 2) [0..<16]) @ ''Aa1''"

text \<open>
  What \<^verbatim>\<open>Math.random().toString(36)\<close> can be: \<open>0\<close> for the draw 0, and \<open>0.\<close> followed by
  one base-36 digit or more for a draw strictly between 0 and 1.
\<close>

definition isBase36Digit :: "char \<Rightarrow> bool" where
  "isBase36Digit c = (c \<in> set ''0123456789abcdefghijklmnopqrstuvwxyz'')"

definition isRandom36 :: "string \<Rightarrow> bool" where
  "isRandom36 s =
     (s = ''0'' \<or> (startsWith s ''0.'' \<and> length s \<ge> 3 \<and> list_all isBase36Digit (drop 2 s)))"

definition googleRegistration :: "Env \<Rightarrow> UserInfo \<Rightarrow> RegisterRequest" where
  "googleRegistration env userInfo =
     \<lparr>reg_email = ui_email userInfo, reg_password = randomPassword (random36 env),
      reg_displayName = ui_name userInfo, reg_avatarUrl = ui_picture userInfo\<rparr>"

text \<open>
  The body of the handler's \<^verbatim>\<open>try\<close> from the lookup on, for the identity \<open>userInfo\<close>: what
  it throws, if anything, and the world it leaves.
\<close>

definition reconcile :: "Env \<Rightarrow> UserInfo \<Rightarrow> World \<Rightarrow> Thrown option \<times> World" where
  "reconcile env userInfo w =
     (let w1 = call (GetByEmail (ui_email userInfo) True) w in
      case lookupProfile env userInfo of
        Inl e \<Rightarrow> (Some e, w1)
      | Inr (existingProfile, shouldRegister) \<Rightarrow>
          (case existingProfile of
             Some p \<Rightarrow>
               (let (p', w2) = syncAvatar env userInfo p w1 in
                (None, establish (p'\<lparr>provider := Some ''google''\<rparr>) w2))
           | None \<Rightarrow>
               if shouldRegister then
                 (let w2 = call (Register (googleRegistration env userInfo)) w1 in
                  case auth_register env (googleRegistration env userInfo) of
                    Inl e \<Rightarrow> (Some e, w2)
                  | Inr newProfile \<Rightarrow>
                      (None, establish (newProfile\<lparr>provider := Some ''google''\<rparr>) w2))
               else (None, w1)))"

text \<open>The whole \<^verbatim>\<open>try\<close>: the user-info request, then the reconciliation.\<close>

definition googleLoginTry :: "Env \<Rightarrow> string \<Rightarrow> World \<Rightarrow> Thrown option \<times> World" where
  "googleLoginTry env access_token w =
     (let w1 = call (FetchUserInfo access_token) w in
      case fetchUserInfo env access_token of
        Inl e \<Rightarrow> (Some e, w1)
      | Inr userInfoRes \<Rightarrow>
          if \<not> ok userInfoRes
          then (Some (ErrorObj ''Failed to fetch user info from Google''), w1)
          else (case json userInfoRes of
                  Inl e \<Rightarrow> (Some e, w1)
                | Inr userInfo \<Rightarrow> reconcile env userInfo w1))"

text \<open>The handler's \<^verbatim>\<open>catch\<close>.\<close>

definition googleLoginCatch :: "Thrown option \<Rightarrow> World \<Rightarrow> World" where
  "googleLoginCatch t w =
     (case t of
        None \<Rightarrow> w
      | Some (ErrorObj m) \<Rightarrow> setError (Some m) w
      | Some (NonError _) \<Rightarrow> setError (Some ''Failed to login with Google'') w)"

text \<open>\<open>onSuccess\<close> of \<open>handleGoogleLogin\<close>, given the token response's \<open>access_token\<close>.\<close>

definition handleGoogleLogin :: "Env \<Rightarrow> string \<Rightarrow> World \<Rightarrow> World" where
  "handleGoogleLogin env access_token w =
     (let (t, w1) = googleLoginTry env access_token (setError None (setIsGoogleLoading True w))
      in setIsGoogleLoading False (googleLoginCatch t w1))"

subsection \<open>Email and password: the form's submit handler\<close>

definition signupRequest :: "ModalState \<Rightarrow> RegisterRequest" where
  "signupRequest m =
     \<lparr>reg_email = st_email m, reg_password = st_password m,
      reg_displayName = (if st_displayName m = [] then None else Some (st_displayName m)),
      reg_avatarUrl = None\<rparr>"

text \<open>The \<^verbatim>\<open>try\<close> of \<open>handleSubmit\<close>, with the form values \<open>m\<close> of the render it closes over.\<close>

definition submitTry :: "Env \<Rightarrow> ModalState \<Rightarrow> World \<Rightarrow> Thrown option \<times> World" where
  "submitTry env m w =
     (case st_mode m of
        SignupMode \<Rightarrow>
          (let w1 = call (Register (signupRequest m)) w in
           case auth_register env (signupRequest m) of
             Inl e \<Rightarrow> (Some e, w1)
           | Inr profile \<Rightarrow> (None, establish profile w1))
      | LoginMode \<Rightarrow>
          (let w1 = call (AuthLogin (st_email m) (st_password m)) w in
           case auth_login env (st_email m) (st_password m) of
             Inl e \<Rightarrow> (Some e, w1)
           | Inr profile \<Rightarrow> (None, establish profile w1)))"

definition submitCatch :: "Mode \<Rightarrow> Thrown option \<Rightarrow> World \<Rightarrow> World" where
  "submitCatch md t w =
     (case t of
        None \<Rightarrow> w
      | Some (ErrorObj msg) \<Rightarrow>
          if includes_str msg ''404'' \<or> includes_str msg ''Not Found'' then
            (if md = LoginMode
             then setError (Some ''Account not found. Please sign up first.'') w
             else setError (Some ''Registration failed. The server returned 404 - check if the API endpoint exists.'') w)
          else if includes_str msg ''Failed to fetch''
          then setError (Some ''Cannot connect to server. Please check if the backend is running.'') w
          else setError (Some msg) w
      | Some (NonError _) \<Rightarrow> setError (Some ''Authentication failed'') w)"

definition handleSubmit :: "Env \<Rightarrow> World \<Rightarrow> World" where
  "handleSubmit env w =
     (let m = modal w; w1 = setError None w in
      if \<not> validateEmail (st_email m)
      then setError (Some ''Please enter a valid email address'') w1
      else if \<not> validatePassword (st_password m)
      then setError (Some ''Password must be at least 6 characters with letters and numbers'') w1
      else
        (let (t, w2) = submitTry env m (setIsLoading True w1)
         in setIsLoading False (submitCatch (st_mode m) t w2)))"

section \<open>Google Classroom\<close>

subsection \<open>The access token of the Classroom calls (useClassroomAccessToken)\<close>

text \<open>What \<^verbatim>\<open>useSession\<close> gives: the session, if any, and its user, if any.\<close>

record SessionUser =
  accessToken :: "string option"
  userProvider :: "string option"

record NextSession =
  sessionUser :: "SessionUser option"

definition sessionToken :: "NextSession option \<Rightarrow> string option" where
  "sessionToken session =
     (case session of
        None \<Rightarrow> None
      | Some s \<Rightarrow> (case sessionUser s of None \<Rightarrow> None | Some u \<Rightarrow> accessToken u))"

definition isGoogleUser :: "NextSession option \<Rightarrow> bool" where
  "isGoogleUser session =
     (case session of
        None \<Rightarrow> False
      | Some s \<Rightarrow> (case sessionUser s of None \<Rightarrow> False | Some u \<Rightarrow> userProvider u = Some ''google''))"

text \<open>The hook's own state.\<close>

record TokenState =
  storedToken :: "string option"
  refreshKey :: nat

definition initialTokenState :: TokenState where
  "initialTokenState = \<lparr>storedToken = None, refreshKey = 0\<rparr>"

text \<open>
  \<open>refreshToken\<close>; \<open>token\<close> is what \<^verbatim>\<open>getClassroomToken()\<close> answers (the module
  \<^verbatim>\<open>@/lib/classroomToken\<close> is not among the sources).
\<close>

definition refreshToken :: "string option \<Rightarrow> TokenState \<Rightarrow> TokenState" where
  "refreshToken token st = st\<lparr>storedToken := token, refreshKey := refreshKey st + 1\<rparr>"

text \<open>The effect: a refresh on mount, on a storage event for the token's key, on the popup's event.\<close>

datatype TokenEvent = Mounted | StorageChange "string option" | ClassroomAuthSuccess

fun onTokenEvent :: "string option \<Rightarrow> TokenEvent \<Rightarrow> TokenState \<Rightarrow> TokenState" where
  "onTokenEvent token Mounted st = refreshToken token st"
| "onTokenEvent token (StorageChange key) st =
     (if key = Some ''classroom_access_token'' then refreshToken token st else st)"
| "onTokenEvent token ClassroomAuthSuccess st = refreshToken token st"

record TokenResult =
  effectiveToken :: "string option"
  hasAccess :: bool
  resultIsGoogleUser :: bool

text \<open>What a render of the hook returns (\<open>effectiveToken\<close> is its \<open>accessToken\<close>).\<close>

definition useClassroomAccessToken :: "NextSession option \<Rightarrow> TokenState \<Rightarrow> TokenResult" where
  "useClassroomAccessToken session st =
     (let accessToken = js_or (storedToken st) (sessionToken session) in
      \<lparr>effectiveToken = accessToken, hasAccess = truthy accessToken,
       resultIsGoogleUser = isGoogleUser session\<rparr>)"

subsection \<open>Filtering the courses (classroomApi)\<close>

datatype CourseState = ACTIVE | ARCHIVED | PROVISIONED | DECLINED | SUSPENDED

record ClassroomCourse =
  courseId :: string
  name :: string
  description :: "string option"
  descriptionHeading :: "string option"
  room :: "string option"
  ownerId :: string
  creationTime :: string
  updateTime :: string
  enrollmentCode :: "string option"
  courseState :: CourseState
  alternateLink :: "string option"

text \<open>\<^verbatim>\<open>field?.toLowerCase().includes(term)\<close>: falsy when the field is absent.\<close>

definition optIncludes :: "string option \<Rightarrow> string \<Rightarrow> bool" where
  "optIncludes field term =
     (case field of None \<Rightarrow> False | Some s \<Rightarrow> includes_str (toLowerCase s) term)"

definition courseMatches :: "string \<Rightarrow> ClassroomCourse \<Rightarrow> bool" where
  "courseMatches term course =
     (includes_str (toLowerCase (name course)) term
      \<or> optIncludes (description course) term
      \<or> optIncludes (descriptionHeading course) term)"

definition filterCoursesByName :: "ClassroomCourse list \<Rightarrow> string \<Rightarrow> ClassroomCourse list" where
  "filterCoursesByName courses searchTerm =
     (if trim searchTerm = [] then courses
      else (let term = toLowerCase searchTerm in filter (courseMatches term) courses))"

section \<open>Concrete scenarios\<close>

text \<open>The modal as it opens, nobody signed in, nothing requested yet.\<close>

definition idleModal :: ModalState where
  "idleModal =
     \<lparr>st_mode = LoginMode, st_email = [], st_password = [], st_displayName = [],
      st_isLoading = False, st_isGoogleLoading = False, st_error = None, closed = 0\<rparr>"

definition initialWorld :: World where
  "initialWorld = \<lparr>modal = idleModal, auth = initialAuthState, net = []\<rparr>"

text \<open>The identities and the stored profile of the spec's two scenarios.\<close>

definition identityA :: UserInfo where
  "identityA = \<lparr>ui_email = ''a@x.com'', ui_name = Some ''Ann'', ui_picture = None\<rparr>"

definition identityB :: UserInfo where
  "identityB = \<lparr>ui_email = ''b@x.com'', ui_name = Some ''Bob'', ui_picture = Some ''http://img''\<rparr>"

definition profileB :: Profile where
  "profileB =
     \<lparr>id' = ''7'', email = ''b@x.com'', displayName = Some ''Bob'', avatarUrl = None,
      provider = None\<rparr>"

definition profileOf :: "RegisterRequest \<Rightarrow> Profile" where
  "profileOf r =
     \<lparr>id' = ''8'', email = reg_email r, displayName = reg_displayName r,
      avatarUrl = reg_avatarUrl r, provider = None\<rparr>"

text \<open>
  A backend that answers the lookup with \<open>lookup\<close> and the update with \<open>upd\<close>, and that
  registers and authenticates when \<open>up\<close> holds and is unreachable otherwise. Every draw of
  \<^verbatim>\<open>Math.random()\<close> is rendered \<open>draw\<close>.
\<close>

definition scenario ::
  "UserInfo \<Rightarrow> (Thrown + Profile option) \<Rightarrow> (Thrown + Profile) \<Rightarrow> bool \<Rightarrow> string \<Rightarrow> Env" where
  "scenario identity lookup upd up draw =
     \<lparr>fetchUserInfo = (\<lambda>t. Inr \<lparr>ok = True, json = Inr identity\<rparr>),
      profiles_getByEmail = (\<lambda>e s. lookup),
      profiles_update = (\<lambda>i f. upd),
      auth_register = (\<lambda>r. if up then Inr (profileOf r) else Inl (ErrorObj ''Failed to fetch'')),
      auth_login = (\<lambda>e p. if up then Inr profileB else Inl (ErrorObj ''Failed to fetch'')),
      random36 = (\<lambda>i. draw)\<rparr>"

text \<open>A course with the three fields the filter reads.\<close>

definition courseNamed :: "string \<Rightarrow> string option \<Rightarrow> string option \<Rightarrow> ClassroomCourse" where
  "courseNamed n d h =
     \<lparr>courseId = ''c'', name = n, description = d, descriptionHeading = h, room = None,
      ownerId = ''o'', creationTime = [], updateTime = [], enrollmentCode = None,
      courseState = ACTIVE, alternateLink = None\<rparr>"

text \<open>The login form filled in with an email and a password.\<close>

definition loginForm :: "string \<Rightarrow> string \<Rightarrow> World" where
  "loginForm e p = initialWorld\<lparr>modal := idleModal\<lparr>st_email := e, st_password := p\<rparr>\<rparr>"

section \<open>Properties of the string operations\<close>

text \<open>\<open>includes_str\<close> finds the term at some position, as \<^verbatim>\<open>includes\<close> does.\<close>

lemma startsWith_iff: "startsWith s t \<longleftrightarrow> (\<exists>b. s = t @ b)"
  by (induction s t rule: startsWith.induct) auto

lemma includes_str_iff: "includes_str s t \<longleftrightarrow> (\<exists>a b. s = a @ t @ b)"
proof (induction s)
  case Nil
  then show ?case by simp
next
  case (Cons c s)
  have "(\<exists>a b. c # s = a @ t @ b) \<longleftrightarrow> (\<exists>b. c # s = t @ b) \<or> (\<exists>a b. s = a @ t @ b)"
  proof
    assume "\<exists>a b. c # s = a @ t @ b"
    then obtain a b where e: "c # s = a @ t @ b" by blast
    show "(\<exists>b. c # s = t @ b) \<or> (\<exists>a b. s = a @ t @ b)"
    proof (cases a)
      case Nil
      with e show ?thesis by auto
    next
      case (Cons x a')
      with e have "s = a' @ t @ b" by simp
      then show ?thesis by blast
    qed
  next
    assume "(\<exists>b. c # s = t @ b) \<or> (\<exists>a b. s = a @ t @ b)"
    then show "\<exists>a b. c # s = a @ t @ b"
    proof
      assume "\<exists>b. c # s = t @ b"
      then obtain b where "c # s = [] @ t @ b" by auto
      then show ?thesis by blast
    next
      assume "\<exists>a b. s = a @ t @ b"
      then obtain a b where "c # s = (c # a) @ t @ b" by auto
      then show ?thesis by blast
    qed
  qed
  with Cons show ?case by (simp add: startsWith_iff)
qed

text \<open>What the email pattern accepts, read off the pattern.\<close>

lemma matches_Chr: "matches (Chr c # r) s \<longleftrightarrow> (\<exists>t. s = c # t \<and> matches r t)"
  by (cases s) auto

lemma matches_OneOrMore:
  "matches (OneOrMore P # r) s \<longleftrightarrow>
     (\<exists>a t. s = a @ t \<and> a \<noteq> [] \<and> list_all P a \<and> matches r t)"
proof (induction s)
  case Nil
  then show ?case by simp
next
  case (Cons d s)
  show ?case
  proof
    assume "matches (OneOrMore P # r) (d # s)"
    then have d: "P d" and m: "matches r s \<or> matches (OneOrMore P # r) s" by simp_all
    from m show "\<exists>a t. d # s = a @ t \<and> a \<noteq> [] \<and> list_all P a \<and> matches r t"
    proof
      assume "matches r s"
      with d have "d # s = [d] @ s \<and> [d] \<noteq> [] \<and> list_all P [d] \<and> matches r s" by simp
      then show ?thesis by blast
    next
      assume "matches (OneOrMore P # r) s"
      with Cons obtain a t where "s = a @ t" "a \<noteq> []" "list_all P a" "matches r t" by blast
      with d have "d # s = (d # a) @ t \<and> d # a \<noteq> [] \<and> list_all P (d # a) \<and> matches r t"
        by simp
      then show ?thesis by blast
    qed
  next
    assume "\<exists>a t. d # s = a @ t \<and> a \<noteq> [] \<and> list_all P a \<and> matches r t"
    then obtain a t where e: "d # s = a @ t" and ne: "a \<noteq> []" and p: "list_all P a"
      and m: "matches r t" by blast
    from ne obtain x a' where a: "a = x # a'" by (cases a) auto
    with e p have x: "x = d" "s = a' @ t" "P d" "list_all P a'" by simp_all
    show "matches (OneOrMore P # r) (d # s)"
    proof (cases a')
      case Nil
      with x m show ?thesis by simp
    next
      case (Cons y ys)
      with x m have "\<exists>a t. s = a @ t \<and> a \<noteq> [] \<and> list_all P a \<and> matches r t" by blast
      with Cons.IH x show ?thesis by simp
    qed
  qed
qed

lemma validateEmail_iff:
  "validateEmail e \<longleftrightarrow>
     (\<exists>a b c. e = a @ ''@'' @ b @ ''.'' @ c \<and> a \<noteq> [] \<and> b \<noteq> [] \<and> c \<noteq> []
        \<and> list_all notSpaceOrAt a \<and> list_all notSpaceOrAt b \<and> list_all notSpaceOrAt c)"
  unfolding validateEmail_def matches_OneOrMore matches_Chr matches.simps
  by (auto; blast)

section \<open>Properties of the Session store\<close>

lemma act_keeps_derived:
  "isAuthenticated s = (user s \<noteq> None) \<Longrightarrow>
   isAuthenticated (act a s) = (user (act a s) \<noteq> None)"
  by (cases a) (simp_all add: setUser_def setAuthLoading_def setAuthError_def login_def logout_def)

lemma runActions_keeps_derived:
  "isAuthenticated s = (user s \<noteq> None) \<Longrightarrow>
   isAuthenticated (runActions as s) = (user (runActions as s) \<noteq> None)"
proof (induction as arbitrary: s)
  case Nil
  then show ?case by simp
next
  case (Cons a as)
  from Cons.prems have "isAuthenticated (act a s) = (user (act a s) \<noteq> None)"
    by (rule act_keeps_derived)
  then show ?case using Cons.IH by simp
qed

text \<open>
  C8. After any sequence of store actions from the initial state, \<open>isAuthenticated\<close> is true
  exactly when \<open>user\<close> is present; \<open>setUser(null)\<close> makes it false and \<open>setUser(p)\<close> for a
  profile \<open>p\<close> makes it true, whatever the state before.
\<close>

theorem session_isAuthenticated_iff_user:
  "isAuthenticated (runActions as initialAuthState) = (user (runActions as initialAuthState) \<noteq> None)
   \<and> isAuthenticated (setUser None s) = False
   \<and> isAuthenticated (setUser (Some p) s) = True"
proof -
  have "isAuthenticated initialAuthState = (user initialAuthState \<noteq> None)"
    by (simp add: initialAuthState_def)
  then have "isAuthenticated (runActions as initialAuthState)
      = (user (runActions as initialAuthState) \<noteq> None)"
    by (rule runActions_keeps_derived)
  then show ?thesis by (simp add: setUser_def)
qed

text \<open>
  C9. \<open>login\<close> and \<open>logout\<close> set \<open>authError\<close> to null besides \<open>user\<close> and \<open>isAuthenticated\<close>
  and leave \<open>isAuthLoading\<close> as it was; \<open>setUser\<close> changes \<open>user\<close> and \<open>isAuthenticated\<close>
  only.
\<close>

theorem store_actions_frame:
  "login p s = \<lparr>user = Some p, isAuthenticated = True,
                isAuthLoading = isAuthLoading s, authError = None\<rparr>
   \<and> logout s = \<lparr>user = None, isAuthenticated = False,
                  isAuthLoading = isAuthLoading s, authError = None\<rparr>
   \<and> setUser u s = \<lparr>user = u, isAuthenticated = (u \<noteq> None),
                     isAuthLoading = isAuthLoading s, authError = authError s\<rparr>"
  by (simp add: login_def logout_def setUser_def)

section \<open>Properties of the Google login\<close>

lemmas world_defs = call_def setError_def setIsLoading_def setIsGoogleLoading_def onClose_def
  resetForm_def storeLogin_def establish_def newCalls_def

lemma reconcile_lookup_failed:
  assumes "profiles_getByEmail env (ui_email userInfo) True = Inl err"
    and "\<not> includes_str (errorMsgOf err) ''404''"
    and "\<not> includes_str (errorMsgOf err) ''Not Found''"
  shows "reconcile env userInfo w =
    (Some (ErrorObj ''Could not verify account status. Please try again.''),
     call (GetByEmail (ui_email userInfo) True) w)"
  using assms by (simp add: reconcile_def lookupProfile_def)

lemma reconcile_found:
  assumes "profiles_getByEmail env (ui_email userInfo) True = Inr (Some p)"
  shows "reconcile env userInfo w =
    (None, establish (fst (syncAvatar env userInfo p (call (GetByEmail (ui_email userInfo) True) w))
                        \<lparr>provider := Some ''google''\<rparr>)
             (snd (syncAvatar env userInfo p (call (GetByEmail (ui_email userInfo) True) w))))"
  using assms by (simp add: reconcile_def lookupProfile_def split: prod.splits)

lemma reconcile_not_found:
  assumes "profiles_getByEmail env (ui_email userInfo) True = Inl err"
    and "includes_str (errorMsgOf err) ''404'' \<or> includes_str (errorMsgOf err) ''Not Found''"
  shows "reconcile env userInfo w =
    (case auth_register env (googleRegistration env userInfo) of
       Inl e \<Rightarrow> (Some e, call (Register (googleRegistration env userInfo)) (call (GetByEmail (ui_email userInfo) True) w))
     | Inr newProfile \<Rightarrow> (None, establish (newProfile\<lparr>provider := Some ''google''\<rparr>)
          (call (Register (googleRegistration env userInfo)) (call (GetByEmail (ui_email userInfo) True) w))))"
  using assms by (auto simp add: reconcile_def lookupProfile_def Let_def split: sum.splits)

lemma net_establish: "net (establish p w) = net w"
  by (simp add: world_defs)

lemma auth_establish: "auth (establish p w) = login p (auth w)"
  by (simp add: world_defs)

lemma net_call: "net (call c w) = net w @ [c]" by (simp add: call_def)
lemma auth_call: "auth (call c w) = auth w" by (simp add: call_def)
lemma modal_call: "modal (call c w) = modal w" by (simp add: call_def)

lemma newCalls_append: "net w' = net w @ cs \<Longrightarrow> newCalls w w' = cs"
  by (simp add: newCalls_def)

lemma syncAvatar_net:
  "net (snd (syncAvatar env userInfo p w)) =
     net w @ (if truthy (ui_picture userInfo) \<and> avatarUrl p \<noteq> ui_picture userInfo
              then [UpdateProfile (id' p) (avatarUpdate userInfo p)] else [])"
  by (simp add: syncAvatar_def call_def Let_def split: sum.splits)

lemma syncAvatar_auth: "auth (snd (syncAvatar env userInfo p w)) = auth w"
  by (simp add: syncAvatar_def call_def Let_def split: sum.splits)

lemma syncAvatar_profile:
  "fst (syncAvatar env userInfo p w) =
     (if truthy (ui_picture userInfo) \<and> avatarUrl p \<noteq> ui_picture userInfo
         \<and> isl (profiles_update env (id' p) (avatarUpdate userInfo p)) = False
      then p\<lparr>avatarUrl := ui_picture userInfo, provider := Some ''google''\<rparr> else p)"
  by (simp add: syncAvatar_def call_def Let_def split: sum.splits)

lemma reconcile_calls_cases:
  "\<exists>cs. net (snd (reconcile env userInfo w)) = net w @ GetByEmail (ui_email userInfo) True # cs
      \<and> (cs = [] \<or> (\<exists>i f. cs = [UpdateProfile i f]) \<or> (\<exists>r. cs = [Register r]))"
proof (cases "profiles_getByEmail env (ui_email userInfo) True")
  case (Inl err)
  show ?thesis
  proof (cases "includes_str (errorMsgOf err) ''404'' \<or> includes_str (errorMsgOf err) ''Not Found''")
    case True
    with Inl show ?thesis
      by (simp add: reconcile_not_found net_establish net_call split: sum.splits)
  next
    case False
    with Inl show ?thesis
      by (simp add: reconcile_lookup_failed net_call)
  qed
next
  case (Inr found)
  show ?thesis
  proof (cases found)
    case None
    with Inr show ?thesis
      by (simp add: reconcile_def lookupProfile_def net_call)
  next
    case (Some p)
    with Inr show ?thesis
      by (simp add: reconcile_found net_establish syncAvatar_net net_call)
  qed
qed

lemma reconcile_one_write:
  "length (filter (\<lambda>c. isUpdateCall c \<or> isCreateCall c)
             (newCalls w (snd (reconcile env userInfo w)))) \<le> 1"
proof -
  obtain cs where n: "net (snd (reconcile env userInfo w)) = net w @ GetByEmail (ui_email userInfo) True # cs"
    and c: "cs = [] \<or> (\<exists>i f. cs = [UpdateProfile i f]) \<or> (\<exists>r. cs = [Register r])"
    using reconcile_calls_cases by blast
  from n have "newCalls w (snd (reconcile env userInfo w)) = GetByEmail (ui_email userInfo) True # cs"
    by (simp add: newCalls_def)
  with c show ?thesis by auto
qed


lemma handleGoogleLogin_reconcile:
  assumes "fetchUserInfo env tok = Inr \<lparr>ok = True, json = Inr userInfo\<rparr>"
  shows "handleGoogleLogin env tok w =
     setIsGoogleLoading False
       (googleLoginCatch
          (fst (reconcile env userInfo (call (FetchUserInfo tok) (setError None (setIsGoogleLoading True w)))))
          (snd (reconcile env userInfo (call (FetchUserInfo tok) (setError None (setIsGoogleLoading True w))))))"
  using assms by (simp add: handleGoogleLogin_def googleLoginTry_def split: prod.splits)

text \<open>
  C1. When the lookup by email fails and the message has neither \<open>404\<close> nor \<open>Not Found\<close> in
  it, the reconciliation throws the error "Could not verify account status. Please try
  again.": the lookup is the only request made (no update, no registration), and the Session
  store and the modal are as they were. For the whole handler, when the user-info request
  has answered: the two requests are the user-info request and the lookup, the Session store
  is unchanged, the modal shows that message, is no longer loading and was not closed.
\<close>

theorem lookup_failure_aborts:
  assumes "profiles_getByEmail env (ui_email userInfo) True = Inl err"
    and "\<not> includes_str (errorMsgOf err) ''404''"
    and "\<not> includes_str (errorMsgOf err) ''Not Found''"
  shows "fst (reconcile env userInfo w)
           = Some (ErrorObj ''Could not verify account status. Please try again.'')
     \<and> net (snd (reconcile env userInfo w)) = net w @ [GetByEmail (ui_email userInfo) True]
     \<and> auth (snd (reconcile env userInfo w)) = auth w
     \<and> modal (snd (reconcile env userInfo w)) = modal w
     \<and> (fetchUserInfo env tok = Inr \<lparr>ok = True, json = Inr userInfo\<rparr> \<longrightarrow>
          net (handleGoogleLogin env tok w)
            = net w @ [FetchUserInfo tok, GetByEmail (ui_email userInfo) True]
          \<and> auth (handleGoogleLogin env tok w) = auth w
          \<and> st_error (modal (handleGoogleLogin env tok w))
               = Some ''Could not verify account status. Please try again.''
          \<and> st_isGoogleLoading (modal (handleGoogleLogin env tok w)) = False
          \<and> closed (modal (handleGoogleLogin env tok w)) = closed (modal w))"
proof -
  have r: "\<And>v. reconcile env userInfo v =
      (Some (ErrorObj ''Could not verify account status. Please try again.''),
       call (GetByEmail (ui_email userInfo) True) v)"
    using assms by (rule reconcile_lookup_failed)
  have a: "fst (reconcile env userInfo w)
           = Some (ErrorObj ''Could not verify account status. Please try again.'')
     \<and> net (snd (reconcile env userInfo w)) = net w @ [GetByEmail (ui_email userInfo) True]
     \<and> auth (snd (reconcile env userInfo w)) = auth w
     \<and> modal (snd (reconcile env userInfo w)) = modal w"
    by (simp add: r call_def)
  have b: "fetchUserInfo env tok = Inr \<lparr>ok = True, json = Inr userInfo\<rparr> \<Longrightarrow>
          net (handleGoogleLogin env tok w)
            = net w @ [FetchUserInfo tok, GetByEmail (ui_email userInfo) True]
          \<and> auth (handleGoogleLogin env tok w) = auth w
          \<and> st_error (modal (handleGoogleLogin env tok w))
               = Some ''Could not verify account status. Please try again.''
          \<and> st_isGoogleLoading (modal (handleGoogleLogin env tok w)) = False
          \<and> closed (modal (handleGoogleLogin env tok w)) = closed (modal w)"
    by (simp add: handleGoogleLogin_reconcile r googleLoginCatch_def world_defs)
  from a b show ?thesis by blast
qed

theorem lookup_failure_aborts_witness:
  "\<not> includes_str ''500 Internal Server Error'' ''404''
   \<and> \<not> includes_str ''500 Internal Server Error'' ''Not Found''
   \<and> fst (reconcile (scenario identityB (Inl (ErrorObj ''500 Internal Server Error'')) (Inr profileB) True ''0.i3k'') identityB initialWorld)
       = Some (ErrorObj ''Could not verify account status. Please try again.'')
   \<and> net (snd (reconcile (scenario identityB (Inl (ErrorObj ''500 Internal Server Error'')) (Inr profileB) True ''0.i3k'') identityB initialWorld))
       = [GetByEmail ''b@x.com'' True]
   \<and> auth (snd (reconcile (scenario identityB (Inl (ErrorObj ''500 Internal Server Error'')) (Inr profileB) True ''0.i3k'') identityB initialWorld))
       = initialAuthState
   \<and> net (handleGoogleLogin (scenario identityB (Inl (ErrorObj ''500 Internal Server Error'')) (Inr profileB) True ''0.i3k'') ''tok'' initialWorld)
       = [FetchUserInfo ''tok'', GetByEmail ''b@x.com'' True]
   \<and> user (auth (handleGoogleLogin (scenario identityB (Inl (ErrorObj ''500 Internal Server Error'')) (Inr profileB) True ''0.i3k'') ''tok'' initialWorld))
       = None"
proof -
  let ?env = "scenario identityB (Inl (ErrorObj ''500 Internal Server Error'')) (Inr profileB) True ''0.i3k''"
  have h1: "profiles_getByEmail ?env (ui_email identityB) True = Inl (ErrorObj ''500 Internal Server Error'')"
    by (simp add: scenario_def)
  have h2: "\<not> includes_str (errorMsgOf (ErrorObj ''500 Internal Server Error'')) ''404''" by simp
  have h3: "\<not> includes_str (errorMsgOf (ErrorObj ''500 Internal Server Error'')) ''Not Found''" by simp
  have f: "fetchUserInfo ?env ''tok'' = Inr \<lparr>ok = True, json = Inr identityB\<rparr>"
    by (simp add: scenario_def)
  show ?thesis
    using lookup_failure_aborts [OF h1 h2 h3, of initialWorld "''tok''"] f h2 h3
    by (simp add: identityB_def initialWorld_def initialAuthState_def)
qed


lemma user_establish: "user (auth (establish q v)) = Some q"
  by (simp add: world_defs login_def)

lemma isAuthenticated_establish: "isAuthenticated (auth (establish q v)) = True"
  by (simp add: world_defs login_def)

lemma closed_establish: "closed (modal (establish q v)) = closed (modal v) + 1"
  by (simp add: world_defs)

lemma syncAvatar_modal: "modal (snd (syncAvatar env userInfo p w)) = modal w"
  by (simp add: syncAvatar_def call_def Let_def split: sum.splits)

lemma reconcile_found_user:
  assumes "profiles_getByEmail env (ui_email userInfo) True = Inr (Some p)"
  shows "user (auth (snd (reconcile env userInfo w))) =
     Some (p\<lparr>avatarUrl :=
               (if truthy (ui_picture userInfo) \<and> avatarUrl p \<noteq> ui_picture userInfo
                   \<and> \<not> isl (profiles_update env (id' p) (avatarUpdate userInfo p))
                then ui_picture userInfo else avatarUrl p),
             provider := Some ''google''\<rparr>)"
  by (simp add: reconcile_found [OF assms] user_establish syncAvatar_profile)

lemma reconcile_found_net:
  assumes "profiles_getByEmail env (ui_email userInfo) True = Inr (Some p)"
  shows "net (snd (reconcile env userInfo w)) =
     net w @ GetByEmail (ui_email userInfo) True #
       (if truthy (ui_picture userInfo) \<and> avatarUrl p \<noteq> ui_picture userInfo
        then [UpdateProfile (id' p) (avatarUpdate userInfo p)] else [])"
  by (simp add: reconcile_found [OF assms] net_establish syncAvatar_net net_call)

text \<open>
  C2. When the lookup by email returns a profile \<open>p\<close>, the reconciliation returns without
  throwing, makes no registration request, and the Session is established (the modal closed
  once) with the found profile: \<open>p\<close> with \<open>provider\<close> set to \<open>google\<close>, its \<open>avatarUrl\<close>
  being the identity's picture when the avatar update was made and did not throw. And in
  every invocation, whatever the lookup answers, the update and registration requests
  together are at most one.
\<close>

theorem existing_profile_never_creates:
  "(profiles_getByEmail env (ui_email userInfo) True = Inr (Some p) \<longrightarrow>
      fst (reconcile env userInfo w) = None
      \<and> filter isCreateCall (newCalls w (snd (reconcile env userInfo w))) = []
      \<and> user (auth (snd (reconcile env userInfo w))) =
          Some (p\<lparr>avatarUrl :=
                    (if truthy (ui_picture userInfo) \<and> avatarUrl p \<noteq> ui_picture userInfo
                        \<and> \<not> isl (profiles_update env (id' p) (avatarUpdate userInfo p))
                     then ui_picture userInfo else avatarUrl p),
                  provider := Some ''google''\<rparr>)
      \<and> isAuthenticated (auth (snd (reconcile env userInfo w))) = True
      \<and> closed (modal (snd (reconcile env userInfo w))) = closed (modal w) + 1)
   \<and> length (filter (\<lambda>c. isUpdateCall c \<or> isCreateCall c)
               (newCalls w (snd (reconcile env userInfo w)))) \<le> 1"
proof -
  have "fst (reconcile env userInfo w) = None
      \<and> filter isCreateCall (newCalls w (snd (reconcile env userInfo w))) = []
      \<and> isAuthenticated (auth (snd (reconcile env userInfo w))) = True
      \<and> closed (modal (snd (reconcile env userInfo w))) = closed (modal w) + 1"
    if f: "profiles_getByEmail env (ui_email userInfo) True = Inr (Some p)"
  proof -
    have "newCalls w (snd (reconcile env userInfo w)) =
       GetByEmail (ui_email userInfo) True #
       (if truthy (ui_picture userInfo) \<and> avatarUrl p \<noteq> ui_picture userInfo
        then [UpdateProfile (id' p) (avatarUpdate userInfo p)] else [])"
      by (rule newCalls_append) (simp add: reconcile_found_net [OF f])
    then have "filter isCreateCall (newCalls w (snd (reconcile env userInfo w))) = []"
      by simp
    then show ?thesis
      by (simp add: reconcile_found [OF f] isAuthenticated_establish closed_establish
          syncAvatar_modal modal_call)
  qed
  then show ?thesis
    using reconcile_found_user [of env userInfo p w] reconcile_one_write [of w env userInfo]
    by blast
qed

theorem existing_profile_never_creates_witness:
  "fst (reconcile (scenario identityB (Inr (Some profileB)) (Inr profileB) True ''0.i3k'') identityB initialWorld) = None
   \<and> net (snd (reconcile (scenario identityB (Inr (Some profileB)) (Inr profileB) True ''0.i3k'') identityB initialWorld))
       = [GetByEmail ''b@x.com'' True,
          UpdateProfile ''7'' \<lparr>id' = ''7'', email = ''b@x.com'', displayName = Some ''Bob'',
                                avatarUrl = Some ''http://img'', provider = Some ''google''\<rparr>]
   \<and> user (auth (snd (reconcile (scenario identityB (Inr (Some profileB)) (Inr profileB) True ''0.i3k'') identityB initialWorld)))
       = Some \<lparr>id' = ''7'', email = ''b@x.com'', displayName = Some ''Bob'',
                avatarUrl = Some ''http://img'', provider = Some ''google''\<rparr>
   \<and> isAuthenticated (auth (snd (reconcile (scenario identityB (Inr (Some profileB)) (Inr profileB) True ''0.i3k'') identityB initialWorld)))"
proof -
  let ?env = "scenario identityB (Inr (Some profileB)) (Inr profileB) True ''0.i3k''"
  have h: "profiles_getByEmail ?env (ui_email identityB) True = Inr (Some profileB)"
    by (simp add: scenario_def)
  have n: "net (snd (reconcile ?env identityB initialWorld))
       = [GetByEmail ''b@x.com'' True,
          UpdateProfile ''7'' \<lparr>id' = ''7'', email = ''b@x.com'', displayName = Some ''Bob'',
                                avatarUrl = Some ''http://img'', provider = Some ''google''\<rparr>]"
    using reconcile_found_net [OF h, of initialWorld]
    by (simp add: truthy_def avatarUpdate_def identityB_def profileB_def initialWorld_def)
  show ?thesis
    using existing_profile_never_creates [of ?env identityB profileB initialWorld] h n
    by (simp add: scenario_def truthy_def identityB_def profileB_def)
qed

lemma truthy_Some: "truthy v = (\<exists>url. v = Some url \<and> url \<noteq> [])"
  by (cases v) (simp_all add: truthy_def)

text \<open>
  C4. In the existing-profile path the update requests are: exactly one, for the found
  profile's id with the found profile's \<open>id\<close>, \<open>email\<close> and \<open>displayName\<close>, the identity's
  picture as \<open>avatarUrl\<close> and \<open>provider\<close> \<open>google\<close>, when the identity's picture is present
  (a non-empty string) and differs from the found profile's \<open>avatarUrl\<close>; none otherwise.
  Whatever the update answers, the reconciliation returns without throwing and the Session is
  established with the found profile (same \<open>id\<close>, \<open>email\<close> and \<open>displayName\<close>, \<open>provider\<close>
  \<open>google\<close>); when the update throws, the Session's user is exactly the found profile with
  \<open>provider\<close> set to \<open>google\<close>.
\<close>

theorem avatar_sync_best_effort:
  assumes "profiles_getByEmail env (ui_email userInfo) True = Inr (Some p)"
  shows "filter isUpdateCall (newCalls w (snd (reconcile env userInfo w))) =
           (if \<exists>url. ui_picture userInfo = Some url \<and> url \<noteq> [] \<and> avatarUrl p \<noteq> Some url
            then [UpdateProfile (id' p)
                    \<lparr>id' = id' p, email = email p, displayName = displayName p,
                     avatarUrl = ui_picture userInfo, provider = Some ''google''\<rparr>]
            else [])
     \<and> fst (reconcile env userInfo w) = None
     \<and> isAuthenticated (auth (snd (reconcile env userInfo w))) = True
     \<and> (\<exists>u. user (auth (snd (reconcile env userInfo w))) = Some u
            \<and> id' u = id' p \<and> email u = email p \<and> displayName u = displayName p
            \<and> provider u = Some ''google'')
     \<and> (isl (profiles_update env (id' p) (avatarUpdate userInfo p)) \<longrightarrow>
          user (auth (snd (reconcile env userInfo w))) = Some (p\<lparr>provider := Some ''google''\<rparr>))"
proof -
  have c: "(truthy (ui_picture userInfo) \<and> avatarUrl p \<noteq> ui_picture userInfo)
      = (\<exists>url. ui_picture userInfo = Some url \<and> url \<noteq> [] \<and> avatarUrl p \<noteq> Some url)"
    by (auto simp add: truthy_Some)
  have "newCalls w (snd (reconcile env userInfo w)) =
       GetByEmail (ui_email userInfo) True #
       (if truthy (ui_picture userInfo) \<and> avatarUrl p \<noteq> ui_picture userInfo
        then [UpdateProfile (id' p) (avatarUpdate userInfo p)] else [])"
    by (rule newCalls_append) (simp add: reconcile_found_net [OF assms])
  then have calls: "filter isUpdateCall (newCalls w (snd (reconcile env userInfo w))) =
           (if \<exists>url. ui_picture userInfo = Some url \<and> url \<noteq> [] \<and> avatarUrl p \<noteq> Some url
            then [UpdateProfile (id' p)
                    \<lparr>id' = id' p, email = email p, displayName = displayName p,
                     avatarUrl = ui_picture userInfo, provider = Some ''google''\<rparr>]
            else [])"
    unfolding c by (simp add: avatarUpdate_def)
  have ret: "fst (reconcile env userInfo w) = None
     \<and> isAuthenticated (auth (snd (reconcile env userInfo w))) = True"
    by (simp add: reconcile_found [OF assms] isAuthenticated_establish)
  have u: "\<exists>u. user (auth (snd (reconcile env userInfo w))) = Some u
            \<and> id' u = id' p \<and> email u = email p \<and> displayName u = displayName p
            \<and> provider u = Some ''google''"
    by (simp add: reconcile_found_user [OF assms])
  have t: "isl (profiles_update env (id' p) (avatarUpdate userInfo p)) \<longrightarrow>
          user (auth (snd (reconcile env userInfo w))) = Some (p\<lparr>provider := Some ''google''\<rparr>)"
    by (simp add: reconcile_found_user [OF assms])
  from calls ret u t show ?thesis by blast
qed

theorem avatar_sync_best_effort_witness:
  "filter isUpdateCall (newCalls initialWorld (snd (reconcile
       (scenario identityB (Inr (Some profileB)) (Inl (ErrorObj ''400 Bad Request'')) True ''0.i3k'')
       identityB initialWorld)))
     = [UpdateProfile ''7'' \<lparr>id' = ''7'', email = ''b@x.com'', displayName = Some ''Bob'',
                              avatarUrl = Some ''http://img'', provider = Some ''google''\<rparr>]
   \<and> isAuthenticated (auth (snd (reconcile
       (scenario identityB (Inr (Some profileB)) (Inl (ErrorObj ''400 Bad Request'')) True ''0.i3k'')
       identityB initialWorld)))
   \<and> user (auth (snd (reconcile
       (scenario identityB (Inr (Some profileB)) (Inl (ErrorObj ''400 Bad Request'')) True ''0.i3k'')
       identityB initialWorld)))
     = Some \<lparr>id' = ''7'', email = ''b@x.com'', displayName = Some ''Bob'',
              avatarUrl = None, provider = Some ''google''\<rparr>"
proof -
  let ?env = "scenario identityB (Inr (Some profileB)) (Inl (ErrorObj ''400 Bad Request'')) True ''0.i3k''"
  have h: "profiles_getByEmail ?env (ui_email identityB) True = Inr (Some profileB)"
    by (simp add: scenario_def)
  have i: "isl (profiles_update ?env (id' profileB) (avatarUpdate identityB profileB))"
    by (simp add: scenario_def)
  show ?thesis
    using avatar_sync_best_effort [OF h, of initialWorld] i
    by (simp add: identityB_def profileB_def)
qed


lemma upt_16: "[0..<16] = [0, 1, 2, 3, 4, 5, 6, 7, 8, 9, 10, 11, 12, 13, 14, 15 :: nat]"
  by code_simp

lemma randomPassword_draws:
  "randomPassword rnd =
     charAt (rnd 0) 2 @ charAt (rnd 1) 2 @ charAt (rnd 2) 2 @ charAt (rnd 3) 2 @
     charAt (rnd 4) 2 @ charAt (rnd 5) 2 @ charAt (rnd 6) 2 @ charAt (rnd 7) 2 @
     charAt (rnd 8) 2 @ charAt (rnd 9) 2 @ charAt (rnd 10) 2 @ charAt (rnd 11) 2 @
     charAt (rnd 12) 2 @ charAt (rnd 13) 2 @ charAt (rnd 14) 2 @ charAt (rnd 15) 2 @ ''Aa1''"
  by (simp add: randomPassword_def upt_16)

text \<open>
  C3, amended. When the lookup by email fails with \<open>404\<close> or \<open>Not Found\<close> in the message, the
  requests of the reconciliation are the lookup and exactly one registration, with the
  identity's email, name and picture and the generated password; there is no update. When
  the registration returns a profile, the Session is established with that profile,
  \<open>provider\<close> set to \<open>google\<close>, and the modal is closed; when the registration throws, the
  reconciliation throws the same, and the Session store and the modal are as they were.
\<close>

theorem not_found_registers_once:
  assumes "profiles_getByEmail env (ui_email userInfo) True = Inl err"
    and "includes_str (errorMsgOf err) ''404'' \<or> includes_str (errorMsgOf err) ''Not Found''"
  shows "net (snd (reconcile env userInfo w)) =
           net w @ [GetByEmail (ui_email userInfo) True,
                    Register \<lparr>reg_email = ui_email userInfo,
                              reg_password = randomPassword (random36 env),
                              reg_displayName = ui_name userInfo,
                              reg_avatarUrl = ui_picture userInfo\<rparr>]
     \<and> (\<forall>newProfile. auth_register env (googleRegistration env userInfo) = Inr newProfile \<longrightarrow>
           fst (reconcile env userInfo w) = None
           \<and> user (auth (snd (reconcile env userInfo w)))
               = Some (newProfile\<lparr>provider := Some ''google''\<rparr>)
           \<and> isAuthenticated (auth (snd (reconcile env userInfo w))) = True
           \<and> closed (modal (snd (reconcile env userInfo w))) = closed (modal w) + 1)
     \<and> (\<forall>e. auth_register env (googleRegistration env userInfo) = Inl e \<longrightarrow>
           fst (reconcile env userInfo w) = Some e
           \<and> auth (snd (reconcile env userInfo w)) = auth w
           \<and> modal (snd (reconcile env userInfo w)) = modal w)"
proof -
  note r = reconcile_not_found [OF assms, of w]
  have n: "net (snd (reconcile env userInfo w)) =
           net w @ [GetByEmail (ui_email userInfo) True,
                    Register \<lparr>reg_email = ui_email userInfo,
                              reg_password = randomPassword (random36 env),
                              reg_displayName = ui_name userInfo,
                              reg_avatarUrl = ui_picture userInfo\<rparr>]"
    by (simp add: r net_establish net_call googleRegistration_def split: sum.splits)
  have ok: "fst (reconcile env userInfo w) = None
           \<and> user (auth (snd (reconcile env userInfo w)))
               = Some (newProfile\<lparr>provider := Some ''google''\<rparr>)
           \<and> isAuthenticated (auth (snd (reconcile env userInfo w))) = True
           \<and> closed (modal (snd (reconcile env userInfo w))) = closed (modal w) + 1"
    if "auth_register env (googleRegistration env userInfo) = Inr newProfile" for newProfile
    using that
    by (simp add: r user_establish isAuthenticated_establish closed_establish modal_call)
  have ko: "fst (reconcile env userInfo w) = Some e
           \<and> auth (snd (reconcile env userInfo w)) = auth w
           \<and> modal (snd (reconcile env userInfo w)) = modal w"
    if "auth_register env (googleRegistration env userInfo) = Inl e" for e
    using that by (simp add: r auth_call modal_call)
  from n ok ko show ?thesis by blast
qed

theorem not_found_registers_once_witness:
  "includes_str ''HTTP 404: Not Found'' ''404''
   \<and> net (snd (reconcile (scenario identityA (Inl (ErrorObj ''HTTP 404: Not Found'')) (Inr profileB) True ''0.i3k'')
                 identityA initialWorld))
       = [GetByEmail ''a@x.com'' True,
          Register \<lparr>reg_email = ''a@x.com'', reg_password = ''iiiiiiiiiiiiiiiiAa1'',
                    reg_displayName = Some ''Ann'', reg_avatarUrl = None\<rparr>]
   \<and> user (auth (snd (reconcile (scenario identityA (Inl (ErrorObj ''HTTP 404: Not Found'')) (Inr profileB) True ''0.i3k'')
                 identityA initialWorld)))
       = Some \<lparr>id' = ''8'', email = ''a@x.com'', displayName = Some ''Ann'', avatarUrl = None,
                provider = Some ''google''\<rparr>"
proof -
  let ?env = "scenario identityA (Inl (ErrorObj ''HTTP 404: Not Found'')) (Inr profileB) True ''0.i3k''"
  have h1: "profiles_getByEmail ?env (ui_email identityA) True = Inl (ErrorObj ''HTTP 404: Not Found'')"
    by (simp add: scenario_def)
  have h2: "includes_str (errorMsgOf (ErrorObj ''HTTP 404: Not Found'')) ''404''
            \<or> includes_str (errorMsgOf (ErrorObj ''HTTP 404: Not Found'')) ''Not Found''"
    by simp
  have p: "randomPassword (random36 ?env) = ''iiiiiiiiiiiiiiiiAa1''"
    by (simp add: scenario_def randomPassword_draws charAt_def)
  have g: "auth_register ?env (googleRegistration ?env identityA)
      = Inr (profileOf (googleRegistration ?env identityA))"
    by (simp add: scenario_def)
  show ?thesis
    using not_found_registers_once [OF h1 h2, of initialWorld] g p
    by (simp add: identityA_def initialWorld_def profileOf_def googleRegistration_def)
qed

text \<open>
  C3 as stated fails where the registration itself fails: the lookup reports 404, the
  registration request cannot reach the server, and no Session is established.
\<close>

theorem registration_failure_no_session:
  "includes_str ''HTTP 404: Not Found'' ''404''
   \<and> fst (reconcile (scenario identityA (Inl (ErrorObj ''HTTP 404: Not Found'')) (Inr profileB) False ''0.i3k'')
                 identityA initialWorld)
       = Some (ErrorObj ''Failed to fetch'')
   \<and> user (auth (snd (reconcile (scenario identityA (Inl (ErrorObj ''HTTP 404: Not Found'')) (Inr profileB) False ''0.i3k'')
                 identityA initialWorld)))
       = None"
  by (simp add: reconcile_def lookupProfile_def scenario_def identityA_def initialWorld_def
      initialAuthState_def call_def)

section \<open>The generated credential\<close>

lemma length_charAt: "length (charAt s i) = (if i < length s then 1 else 0)"
  by (simp add: charAt_def)

lemma length_draws:
  "length (concat (map (\<lambda>i. charAt (rnd i) 2) [0..<n])) = card {i. i < n \<and> 2 < length (rnd i)}"
proof (induction n)
  case 0
  then show ?case by simp
next
  case (Suc n)
  have s: "{i. i < Suc n \<and> 2 < length (rnd i)} =
      (if 2 < length (rnd n) then insert n {i. i < n \<and> 2 < length (rnd i)}
       else {i. i < n \<and> 2 < length (rnd i)})"
    by (auto simp add: less_Suc_eq)
  show ?case using Suc by (simp add: s length_charAt)
qed

lemma randomPassword_length:
  "length (randomPassword rnd) = card {i. i < 16 \<and> 2 < length (rnd i)} + 3"
  by (simp add: randomPassword_def length_draws)

lemma randomPassword_classes:
  "list_ex isLetter (randomPassword rnd) \<and> list_ex isDigit (randomPassword rnd)"
  by (simp add: randomPassword_def isLetter_def isDigit_def)

lemma isRandom36_nonzero: "isRandom36 s \<Longrightarrow> s \<noteq> ''0'' \<Longrightarrow> 2 < length s"
  by (auto simp add: isRandom36_def)

lemma randomPassword_nonzero_draws_valid:
  assumes "\<And>i. i < 16 \<Longrightarrow> isRandom36 (rnd i) \<and> rnd i \<noteq> ''0''"
  shows "length (randomPassword rnd) = 19 \<and> validatePassword (randomPassword rnd)"
proof -
  have "{i. i < 16 \<and> 2 < length (rnd i)} = {i. i < (16::nat)}"
    using assms isRandom36_nonzero by blast
  then have "length (randomPassword rnd) = 19"
    by (simp add: randomPassword_length)
  then show ?thesis
    using randomPassword_classes [of rnd] by (simp add: validatePassword_def)
qed





text \<open>
  The bound is sharp. A draw of 0 is rendered \<open>0\<close>, which has no character at index 2; were
  all sixteen draws 0, the credential would be \<open>Aa1\<close>.
\<close>

lemma randomPassword_all_zero_draws:
  "isRandom36 ''0''
   \<and> randomPassword (\<lambda>i. ''0'') = ''Aa1''
   \<and> validatePassword (randomPassword (\<lambda>i. ''0'')) = False"
  by (simp add: isRandom36_def randomPassword_draws charAt_def validatePassword_def)

section \<open>Properties of the Classroom token\<close>

text \<open>
  C6. With a stored token \<open>S\<close> (a non-empty string) and a session token \<open>T\<close>, the
  effective token is \<open>S\<close>; with no stored token and a session token \<open>T\<close>, it is \<open>T\<close>; with
  neither, there is no token and \<open>hasAccess\<close> is false. The stored token of the hook's state
  is what \<open>getClassroomToken()\<close> answered at the last refresh, the one on mount to begin
  with.
\<close>

theorem stored_token_wins:
  "(S \<noteq> [] \<and> storedToken st = Some S \<and> sessionToken session = Some T \<longrightarrow>
      effectiveToken (useClassroomAccessToken session st) = Some S
      \<and> hasAccess (useClassroomAccessToken session st) = True)
   \<and> (storedToken st = None \<and> sessionToken session = Some T \<longrightarrow>
      effectiveToken (useClassroomAccessToken session st) = Some T)
   \<and> (storedToken st = None \<and> sessionToken session = None \<longrightarrow>
      effectiveToken (useClassroomAccessToken session st) = None
      \<and> hasAccess (useClassroomAccessToken session st) = False)
   \<and> storedToken (onTokenEvent token Mounted st) = token"
  by (simp add: useClassroomAccessToken_def js_or_def truthy_def refreshToken_def)

theorem stored_token_wins_witness:
  "effectiveToken (useClassroomAccessToken
       (Some \<lparr>sessionUser = Some \<lparr>accessToken = Some ''T'', userProvider = Some ''google''\<rparr>\<rparr>)
       (onTokenEvent (Some ''S'') Mounted initialTokenState)) = Some ''S''
   \<and> effectiveToken (useClassroomAccessToken
       (Some \<lparr>sessionUser = Some \<lparr>accessToken = Some ''T'', userProvider = Some ''google''\<rparr>\<rparr>)
       (onTokenEvent None Mounted initialTokenState)) = Some ''T''
   \<and> hasAccess (useClassroomAccessToken None (onTokenEvent None Mounted initialTokenState)) = False"
proof -
  let ?session = "Some \<lparr>sessionUser = Some \<lparr>accessToken = Some ''T'', userProvider = Some ''google''\<rparr>\<rparr>"
  have t: "sessionToken ?session = Some ''T''" "sessionToken None = None"
    by (simp_all add: sessionToken_def)
  have s: "storedToken (onTokenEvent (Some ''S'') Mounted initialTokenState) = Some ''S''"
    "storedToken (onTokenEvent None Mounted initialTokenState) = None"
    by (simp_all add: refreshToken_def)
  show ?thesis
    using stored_token_wins [of "''S''" "onTokenEvent (Some ''S'') Mounted initialTokenState" ?session "''T''"]
      stored_token_wins [of "''S''" "onTokenEvent None Mounted initialTokenState" ?session "''T''"]
      stored_token_wins [of "''S''" "onTokenEvent None Mounted initialTokenState" None "''T''"]
      t s
    by simp
qed

section \<open>Properties of the submit handler\<close>

lemma handleSubmit_invalid_email:
  "\<not> validateEmail (st_email (modal w)) \<Longrightarrow>
     handleSubmit env w = setError (Some ''Please enter a valid email address'') (setError None w)"
  by (simp add: handleSubmit_def Let_def)

lemma handleSubmit_invalid_password:
  "validateEmail (st_email (modal w)) \<Longrightarrow> \<not> validatePassword (st_password (modal w)) \<Longrightarrow>
     handleSubmit env w =
       setError (Some ''Password must be at least 6 characters with letters and numbers'')
         (setError None w)"
  by (simp add: handleSubmit_def Let_def)

lemma net_setError: "net (setError e w) = net w" by (simp add: setError_def)
lemma net_setIsLoading: "net (setIsLoading b w) = net w" by (simp add: setIsLoading_def)

lemma net_submitCatch: "net (submitCatch md t w) = net w"
  by (simp add: submitCatch_def setError_def split: option.splits Thrown.splits)

lemma net_submitTry:
  "net (snd (submitTry env m w)) =
     net w @ [case st_mode m of
                LoginMode \<Rightarrow> AuthLogin (st_email m) (st_password m)
              | SignupMode \<Rightarrow> Register (signupRequest m)]"
  by (simp add: submitTry_def Let_def net_establish net_call split: Mode.splits sum.splits)

lemma handleSubmit_valid_net:
  "validateEmail (st_email (modal w)) \<Longrightarrow> validatePassword (st_password (modal w)) \<Longrightarrow>
     net (handleSubmit env w) =
       net w @ [case st_mode (modal w) of
                  LoginMode \<Rightarrow> AuthLogin (st_email (modal w)) (st_password (modal w))
                | SignupMode \<Rightarrow> Register (signupRequest (modal w))]"
  by (simp add: handleSubmit_def Let_def case_prod_beta net_setIsLoading net_submitCatch
      net_submitTry net_setError)

text \<open>
  C7, amended. In both modes \<open>handleSubmit\<close> checks the email's format and then the
  password's before any request: an email that fails the format check, or a password that
  fails the password check, leaves the requests and the Session store as they were and sets
  the matching message. When both pass, login makes the one authenticate request with the
  email and the password, and signup the one registration request.
\<close>

theorem submit_validates_before_network:
  "(\<not> validateEmail (st_email (modal w)) \<longrightarrow>
      net (handleSubmit env w) = net w \<and> auth (handleSubmit env w) = auth w
      \<and> st_error (modal (handleSubmit env w)) = Some ''Please enter a valid email address'')
   \<and> (validateEmail (st_email (modal w)) \<and> \<not> validatePassword (st_password (modal w)) \<longrightarrow>
      net (handleSubmit env w) = net w \<and> auth (handleSubmit env w) = auth w
      \<and> st_error (modal (handleSubmit env w))
           = Some ''Password must be at least 6 characters with letters and numbers'')
   \<and> (validateEmail (st_email (modal w)) \<and> validatePassword (st_password (modal w))
       \<and> st_mode (modal w) = LoginMode \<longrightarrow>
      net (handleSubmit env w) = net w @ [AuthLogin (st_email (modal w)) (st_password (modal w))])
   \<and> (validateEmail (st_email (modal w)) \<and> validatePassword (st_password (modal w))
       \<and> st_mode (modal w) = SignupMode \<longrightarrow>
      net (handleSubmit env w) = net w @ [Register (signupRequest (modal w))])"
proof -
  have a: "\<not> validateEmail (st_email (modal w)) \<Longrightarrow>
      net (handleSubmit env w) = net w \<and> auth (handleSubmit env w) = auth w
      \<and> st_error (modal (handleSubmit env w)) = Some ''Please enter a valid email address''"
    by (simp add: handleSubmit_invalid_email setError_def)
  have b: "validateEmail (st_email (modal w)) \<Longrightarrow> \<not> validatePassword (st_password (modal w)) \<Longrightarrow>
      net (handleSubmit env w) = net w \<and> auth (handleSubmit env w) = auth w
      \<and> st_error (modal (handleSubmit env w))
           = Some ''Password must be at least 6 characters with letters and numbers''"
    by (simp add: handleSubmit_invalid_password setError_def)
  have c: "validateEmail (st_email (modal w)) \<Longrightarrow> validatePassword (st_password (modal w)) \<Longrightarrow>
      st_mode (modal w) = LoginMode \<Longrightarrow>
      net (handleSubmit env w) = net w @ [AuthLogin (st_email (modal w)) (st_password (modal w))]"
    by (simp add: handleSubmit_valid_net)
  have d: "validateEmail (st_email (modal w)) \<Longrightarrow> validatePassword (st_password (modal w)) \<Longrightarrow>
      st_mode (modal w) = SignupMode \<Longrightarrow>
      net (handleSubmit env w) = net w @ [Register (signupRequest (modal w))]"
    by (simp add: handleSubmit_valid_net)
  from a b c d show ?thesis by blast
qed

lemma validateEmail_b: "validateEmail ''b@x.com''"
  by (simp add: validateEmail_def notSpaceOrAt_def isWhiteSpace_def)

theorem submit_validates_before_network_witness:
  "validateEmail ''b@x.com'' \<and> validatePassword ''secret1''
   \<and> net (handleSubmit (scenario identityB (Inr (Some profileB)) (Inr profileB) True ''0.i3k'')
            (loginForm ''b@x.com'' ''secret1''))
       = [AuthLogin ''b@x.com'' ''secret1'']
   \<and> \<not> validateEmail ''b@x''
   \<and> net (handleSubmit (scenario identityB (Inr (Some profileB)) (Inr profileB) True ''0.i3k'')
            (loginForm ''b@x'' ''secret1'')) = []"
proof -
  let ?env = "scenario identityB (Inr (Some profileB)) (Inr profileB) True ''0.i3k''"
  have p: "validatePassword ''secret1''"
    by (simp add: validatePassword_def isLetter_def isDigit_def)
  have e: "\<not> validateEmail ''b@x''"
    by (simp add: validateEmail_def notSpaceOrAt_def isWhiteSpace_def)
  have f: "st_email (modal (loginForm x y)) = x" "st_password (modal (loginForm x y)) = y"
    "st_mode (modal (loginForm x y)) = LoginMode" "net (loginForm x y) = []" for x y
    by (simp_all add: loginForm_def initialWorld_def idleModal_def)
  show ?thesis
    using submit_validates_before_network [of "loginForm ''b@x.com'' ''secret1''" ?env]
      submit_validates_before_network [of "loginForm ''b@x'' ''secret1''" ?env]
      validateEmail_b p e
    by (simp add: f)
qed

text \<open>
  C7 as stated fails: in login mode, with an email that passes the format check and the
  password \<open>abc\<close>, no request is made and the password message is shown.
\<close>

theorem login_rechecks_password_format:
  "validateEmail ''b@x.com''
   \<and> st_mode (modal (loginForm ''b@x.com'' ''abc'')) = LoginMode
   \<and> net (handleSubmit (scenario identityB (Inr (Some profileB)) (Inr profileB) True ''0.i3k'')
            (loginForm ''b@x.com'' ''abc'')) = []
   \<and> st_error (modal (handleSubmit (scenario identityB (Inr (Some profileB)) (Inr profileB) True ''0.i3k'')
            (loginForm ''b@x.com'' ''abc'')))
       = Some ''Password must be at least 6 characters with letters and numbers''
   \<and> user (auth (handleSubmit (scenario identityB (Inr (Some profileB)) (Inr profileB) True ''0.i3k'')
            (loginForm ''b@x.com'' ''abc''))) = None"
proof -
  have f: "st_email (modal (loginForm x y)) = x" "st_password (modal (loginForm x y)) = y"
    "st_mode (modal (loginForm x y)) = LoginMode" "net (loginForm x y) = []"
    "user (auth (loginForm x y)) = None" for x y
    by (simp_all add: loginForm_def initialWorld_def idleModal_def initialAuthState_def)
  have p: "\<not> validatePassword ''abc''"
    by (simp add: validatePassword_def)
  show ?thesis
    using validateEmail_b p
    by (simp add: handleSubmit_invalid_password f setError_def)
qed


section \<open>Properties of the course filter\<close>

lemma trim_empty_iff: "trim s = [] \<longleftrightarrow> list_all isWhiteSpace s"
proof
  assume t: "trim s = []"
  show "list_all isWhiteSpace s"
  proof (rule ccontr)
    assume "\<not> list_all isWhiteSpace s"
    then have ne: "dropWhile isWhiteSpace s \<noteq> []"
      by (simp only: list_all_iff dropWhile_eq_Nil_conv not_False_eq_True)
    then have "\<not> isWhiteSpace (hd (dropWhile isWhiteSpace s))"
      by (rule hd_dropWhile)
    moreover from ne have "hd (dropWhile isWhiteSpace s) \<in> set (rev (dropWhile isWhiteSpace s))"
      by simp
    moreover from t have "\<forall>c \<in> set (rev (dropWhile isWhiteSpace s)). isWhiteSpace c"
      unfolding trim_def by (simp only: rev_is_Nil_conv dropWhile_eq_Nil_conv)
    ultimately show False by blast
  qed
next
  assume "list_all isWhiteSpace s"
  then have "dropWhile isWhiteSpace s = []"
    by (simp only: list_all_iff dropWhile_eq_Nil_conv)
  then show "trim s = []" by (simp only: trim_def rev.simps dropWhile.simps)
qed

lemma courseMatches_fields:
  "courseMatches term course =
     (includes_str (toLowerCase (name course)) term
      \<or> (\<exists>d. description course = Some d \<and> includes_str (toLowerCase d) term)
      \<or> (\<exists>h. descriptionHeading course = Some h \<and> includes_str (toLowerCase h) term))"
  by (simp add: courseMatches_def optIncludes_def split: option.splits)

text \<open>
  C10. \<open>filterCoursesByName\<close> returns the list it was given when the search term is empty
  or white space only. For any other term it returns, in their order, exactly the courses
  whose name, description or description heading, each put in lower case, contains the
  term put in lower case (the term is not trimmed); the result is a subsequence of the
  input.
\<close>

theorem filterCoursesByName_blank_or_matching:
  "(list_all isWhiteSpace searchTerm \<longrightarrow> filterCoursesByName courses searchTerm = courses)
   \<and> (\<not> list_all isWhiteSpace searchTerm \<longrightarrow>
        filterCoursesByName courses searchTerm =
          filter (\<lambda>course.
                    includes_str (toLowerCase (name course)) (toLowerCase searchTerm)
                    \<or> (\<exists>d. description course = Some d
                            \<and> includes_str (toLowerCase d) (toLowerCase searchTerm))
                    \<or> (\<exists>h. descriptionHeading course = Some h
                            \<and> includes_str (toLowerCase h) (toLowerCase searchTerm)))
                 courses)
   \<and> subseq (filterCoursesByName courses searchTerm) courses"
proof -
  have "subseq (filterCoursesByName courses searchTerm) courses"
    by (simp add: filterCoursesByName_def Let_def)
  moreover have "(\<lambda>course. courseMatches (toLowerCase searchTerm) course) =
      (\<lambda>course.
          includes_str (toLowerCase (name course)) (toLowerCase searchTerm)
          \<or> (\<exists>d. description course = Some d
                  \<and> includes_str (toLowerCase d) (toLowerCase searchTerm))
          \<or> (\<exists>h. descriptionHeading course = Some h
                  \<and> includes_str (toLowerCase h) (toLowerCase searchTerm)))"
    by (rule ext) (rule courseMatches_fields)
  ultimately show ?thesis
    by (simp add: filterCoursesByName_def trim_empty_iff Let_def)
qed

lemma lower_MATH: "toLowerCase ''MATH'' = ''math''"
  by code_simp

lemma lower_names:
  "toLowerCase ''Math 101'' = ''math 101''" "toLowerCase ''History'' = ''history''"
  "toLowerCase ''Aftermath'' = ''aftermath''" "toLowerCase ''Art'' = ''art''"
  by code_simp+

theorem filterCoursesByName_blank_or_matching_witness:
  "list_all isWhiteSpace ''  ''
   \<and> filterCoursesByName
        [courseNamed ''Math 101'' None None, courseNamed ''Art'' None None,
         courseNamed ''History'' (Some ''Aftermath'') None] ''  ''
       = [courseNamed ''Math 101'' None None, courseNamed ''Art'' None None,
          courseNamed ''History'' (Some ''Aftermath'') None]
   \<and> \<not> list_all isWhiteSpace ''MATH''
   \<and> filterCoursesByName
        [courseNamed ''Math 101'' None None, courseNamed ''Art'' None None,
         courseNamed ''History'' (Some ''Aftermath'') None] ''MATH''
       = [courseNamed ''Math 101'' None None, courseNamed ''History'' (Some ''Aftermath'') None]"
proof -
  let ?cs = "[courseNamed ''Math 101'' None None, courseNamed ''Art'' None None,
         courseNamed ''History'' (Some ''Aftermath'') None]"
  have b: "list_all isWhiteSpace ''  ''" "\<not> list_all isWhiteSpace ''MATH''"
    by (simp_all add: isWhiteSpace_def)
  have f: "name (courseNamed n d h) = n" "description (courseNamed n d h) = d"
    "descriptionHeading (courseNamed n d h) = h" for n d h
    by (simp_all add: courseNamed_def)
  show ?thesis
    using filterCoursesByName_blank_or_matching [of "''  ''" ?cs]
      filterCoursesByName_blank_or_matching [of "''MATH''" ?cs] b
    by (simp add: f lower_MATH lower_names)
qed

end
